theory Spec2Isabelle
  imports Main "HOL-Library.Word"
begin

section \<open>The payment-confirmation webhook of main.py\<close>

text \<open>
  The handler \<^verbatim>\<open>c2b_mpesa_confirmation_resource\<close> receives the request body as parsed
  JSON (\<^verbatim>\<open>Any = Body(None)\<close>), reads it by subscripting, writes one record to Redis and
  answers. The body is modelled as the Python value that the JSON parser produces, and
  the handler as a function of that value and of the store. The rate limiter, the timing
  middleware and the other endpoints are not part of it.
\<close>

subsection \<open>Parsed JSON\<close>

text \<open>
  A JSON number is a Python \<^verbatim>\<open>int\<close> (unbounded) or a \<^verbatim>\<open>float\<close>; a float is kept as its
  IEEE-754 binary64 bit pattern. A \<^verbatim>\<open>dict\<close> is the list of its key/value pairs, read with
  \<open>map_of\<close>; a list keeps its order.
\<close>

datatype json =
    JNull
  | JBool bool
  | JInt int
  | JFloat "64 word"
  | JStr string
  | JArr "json list"
  | JObj "(string \<times> json) list"

subsection \<open>Exceptions\<close>

text \<open>
  \<open>HTTPException s d\<close> is FastAPI's exception with \<^verbatim>\<open>status_code=s\<close> and
  \<^verbatim>\<open>detail=d\<close>; the others are the built-in exceptions the handler's expressions raise,
  and the validation error of the response model.
\<close>

datatype exn =
    KeyError string
  | TypeError
  | StopIteration
  | RuntimeError
  | ValidationError
  | HTTPException nat json

text \<open>\<^verbatim>\<open>obj[key]\<close> with a string key: only a dict accepts it, and raises KeyError when
  the key is absent; a list, a string, a number, a boolean and None raise TypeError.\<close>

fun getitem :: "json \<Rightarrow> string \<Rightarrow> exn + json" where
  "getitem (JObj kvs) k = (case map_of kvs k of None \<Rightarrow> Inl (KeyError k) | Some v \<Rightarrow> Inr v)"
| "getitem _ k = Inl TypeError"

text \<open>\<^verbatim>\<open>for item in x\<close>: a list yields its elements, a string its characters, a dict its
  keys; the other values are not iterable.\<close>

fun iter :: "json \<Rightarrow> exn + json list" where
  "iter (JArr xs) = Inr xs"
| "iter (JStr s) = Inr (map (\<lambda>c. JStr [c]) s)"
| "iter (JObj kvs) = Inr (map (\<lambda>kv. JStr (fst kv)) kvs)"
| "iter _ = Inl TypeError"

text \<open>\<^verbatim>\<open>x == 0\<close>: true of the int 0, of the floats 0.0 and -0.0, and of False (a bool is
  an int in Python); false of every other value.\<close>

fun eq_zero :: "json \<Rightarrow> bool" where
  "eq_zero (JInt i) = (i = 0)"
| "eq_zero (JFloat w) = (w = 0 \<or> w = 0x8000000000000000)"
| "eq_zero (JBool b) = (\<not> b)"
| "eq_zero _ = False"

subsection \<open>The key-value store\<close>

text \<open>
  Redis as the handler uses it: string keys and string values. \<open>cmds\<close> records the SET
  commands in the order they were sent. The connection is taken to succeed.
\<close>

record redis =
  kv :: "string \<rightharpoonup> string"
  cmds :: "(string \<times> string) list"

definition redis_set :: "string \<Rightarrow> string \<Rightarrow> redis \<Rightarrow> redis" where
  "redis_set k v r = r\<lparr>kv := (kv r)(k \<mapsto> v), cmds := cmds r @ [(k, v)]\<rparr>"

subsection \<open>Library functions the handler calls\<close>

text \<open>
  Three functions of libraries outside the repository are parameters of the model:
  \<^item> \<open>dumps\<close> is \<^verbatim>\<open>json.dumps\<close>;
  \<^item> \<open>format\<close> is the text an f-string gives a value that is not a \<^verbatim>\<open>str\<close>;
  \<^item> \<open>str_validator\<close> is what pydantic makes of a value that is neither None nor a
    \<^verbatim>\<open>str\<close> in a field of type \<^verbatim>\<open>Optional[str]\<close>: a string when it coerces the value,
    \<open>None\<close> when it rejects it.
\<close>

record libs =
  dumps :: "json \<Rightarrow> string"
  format :: "json \<Rightarrow> string"
  str_validator :: "json \<Rightarrow> string option"

text \<open>\<^verbatim>\<open>f'receipt:{CheckoutRequestID}'\<close>: a \<^verbatim>\<open>str\<close> is inserted as it is.\<close>

definition receipt_key :: "libs \<Rightarrow> json \<Rightarrow> string" where
  "receipt_key L c = ''receipt:'' @ (case c of JStr s \<Rightarrow> s | _ \<Rightarrow> format L c)"

subsection \<open>The response model\<close>

record confirmation =
  receipt_id :: "string option"
  success :: bool
  errors :: "string option"

definition optional_str :: "libs \<Rightarrow> json \<Rightarrow> exn + string option" where
  "optional_str L v =
     (case v of
        JNull \<Rightarrow> Inr None
      | JStr s \<Rightarrow> Inr (Some s)
      | _ \<Rightarrow> (case str_validator L v of
                None \<Rightarrow> Inl ValidationError
              | Some s \<Rightarrow> Inr (Some s)))"

definition PaymentConfirmation :: "libs \<Rightarrow> json \<Rightarrow> bool \<Rightarrow> json \<Rightarrow> exn + confirmation" where
  "PaymentConfirmation L rid ok errs =
     (case optional_str L rid of
        Inl e \<Rightarrow> Inl e
      | Inr i \<Rightarrow>
          (case optional_str L errs of
             Inl e \<Rightarrow> Inl e
           | Inr d \<Rightarrow> Inr \<lparr>receipt_id = i, success = ok, errors = d\<rparr>))"

subsection \<open>The handler\<close>

text \<open>Line 131: \<^verbatim>\<open>c2b_mpesa_request["Body"]["stkCallback"]\<close>.\<close>

definition stk_callback :: "json \<Rightarrow> exn + json" where
  "stk_callback req =
     (case getitem req ''Body'' of
        Inl e \<Rightarrow> Inl e
      | Inr body \<Rightarrow> getitem body ''stkCallback'')"

text \<open>Lines 131 to 136: the callback and its four fields, read in the source's order.\<close>

definition read_fields :: "json \<Rightarrow> exn + (json \<times> json \<times> json \<times> json \<times> json)" where
  "read_fields req =
     (case stk_callback req of Inl e \<Rightarrow> Inl e | Inr stk \<Rightarrow>
     (case getitem stk ''MerchantRequestID'' of Inl e \<Rightarrow> Inl e | Inr m \<Rightarrow>
     (case getitem stk ''CheckoutRequestID'' of Inl e \<Rightarrow> Inl e | Inr c \<Rightarrow>
     (case getitem stk ''ResultCode'' of Inl e \<Rightarrow> Inl e | Inr rc \<Rightarrow>
     (case getitem stk ''ResultDesc'' of Inl e \<Rightarrow> Inl e | Inr rd \<Rightarrow>
        Inr (stk, m, c, rc, rd))))))"

text \<open>
  \<^verbatim>\<open>next(item["Value"] for item in CallbackMetadata if item["Name"] == name)\<close>:
  the generator reads \<^verbatim>\<open>item["Name"]\<close> of each item in turn, and \<^verbatim>\<open>item["Value"]\<close> of
  the first whose name is \<open>name\<close>; \<^verbatim>\<open>next\<close> has no default, so an exhausted generator
  raises StopIteration.
\<close>

fun next_value :: "string \<Rightarrow> json list \<Rightarrow> exn + json" where
  "next_value name [] = Inl StopIteration"
| "next_value name (item # items) =
     (case getitem item ''Name'' of
        Inl e \<Rightarrow> Inl e
      | Inr n \<Rightarrow> if n = JStr name then getitem item ''Value'' else next_value name items)"

definition next_item :: "string \<Rightarrow> json \<Rightarrow> exn + json" where
  "next_item name cm = (case iter cm of Inl e \<Rightarrow> Inl e | Inr items \<Rightarrow> next_value name items)"

text \<open>Lines 138 to 143.\<close>

definition read_metadata :: "json \<Rightarrow> exn + (json \<times> json \<times> json \<times> json)" where
  "read_metadata stk =
     (case getitem stk ''CallbackMetadata'' of Inl e \<Rightarrow> Inl e | Inr md \<Rightarrow>
     (case getitem md ''Item'' of Inl e \<Rightarrow> Inl e | Inr cm \<Rightarrow>
     (case next_item ''Amount'' cm of Inl e \<Rightarrow> Inl e | Inr a \<Rightarrow>
     (case next_item ''MpesaReceiptNumber'' cm of Inl e \<Rightarrow> Inl e | Inr n \<Rightarrow>
     (case next_item ''TransactionDate'' cm of Inl e \<Rightarrow> Inl e | Inr t \<Rightarrow>
     (case next_item ''PhoneNumber'' cm of Inl e \<Rightarrow> Inl e | Inr p \<Rightarrow>
        Inr (a, n, t, p)))))))"

text \<open>The two shapes of \<^verbatim>\<open>transc\<close>, lines 145 to 154 and 168 to 173.\<close>

definition success_transc ::
  "json \<Rightarrow> json \<Rightarrow> json \<Rightarrow> json \<Rightarrow> json \<Rightarrow> json \<Rightarrow> json \<Rightarrow> json \<Rightarrow> json" where
  "success_transc m c rc rd a n t p =
     JObj [(''MerchantRequestID'', m), (''CheckoutRequestID'', c), (''ResultCode'', rc),
           (''ResultDesc'', rd), (''Amount'', a), (''MpesaReceiptNumber'', n),
           (''TransactionDate'', t), (''PhoneNumber'', p)]"

definition failure_transc :: "json \<Rightarrow> json \<Rightarrow> json \<Rightarrow> json \<Rightarrow> json" where
  "failure_transc m c rc rd =
     JObj [(''MerchantRequestID'', m), (''CheckoutRequestID'', c), (''ResultCode'', rc),
           (''ResultDesc'', rd)]"

text \<open>The body of the \<^verbatim>\<open>try\<close>, lines 131 to 179: the store after it, and what it returns
  or raises.\<close>

definition try_block :: "libs \<Rightarrow> json \<Rightarrow> redis \<Rightarrow> redis \<times> (exn + confirmation)" where
  "try_block L req r =
     (case read_fields req of
        Inl e \<Rightarrow> (r, Inl e)
      | Inr (stk, m, c, rc, rd) \<Rightarrow>
          if eq_zero rc then
            (case read_metadata stk of
               Inl e \<Rightarrow> (r, Inl e)
             | Inr (a, n, t, p) \<Rightarrow>
                 (let transc = success_transc m c rc rd a n t p;
                      r' = redis_set (receipt_key L c) (dumps L transc) r
                  in (r', PaymentConfirmation L n (eq_zero rc) rd)))
          else
            (let transc = failure_transc m c rc rd;
                 r' = redis_set (receipt_key L c) (dumps L transc) r
             in (r', Inl (HTTPException 400 rd))))"

text \<open>
  \<^verbatim>\<open>str(e)\<close> of a KeyError is the \<^verbatim>\<open>repr\<close> of the key. The keys the handler looks up
  are literals of letters only, whose \<^verbatim>\<open>repr\<close> is the key between single quotes.
\<close>

definition str_KeyError :: "string \<Rightarrow> string" where
  "str_KeyError k = [CHR 0x27] @ k @ [CHR 0x27]"

text \<open>Lines 180 to 182: \<^verbatim>\<open>except KeyError as e\<close>; any other exception passes.\<close>

definition except_KeyError :: "exn \<Rightarrow> exn" where
  "except_KeyError e =
     (case e of
        KeyError k \<Rightarrow> HTTPException 400 (JStr (''Missing required field: '' @ str_KeyError k))
      | _ \<Rightarrow> e)"

text \<open>The handler is a coroutine: a StopIteration that leaves it is replaced by a
  RuntimeError.\<close>

definition coroutine_raise :: "exn \<Rightarrow> exn" where
  "coroutine_raise e = (case e of StopIteration \<Rightarrow> RuntimeError | _ \<Rightarrow> e)"

definition c2b_mpesa_confirmation_resource ::
  "libs \<Rightarrow> json \<Rightarrow> redis \<Rightarrow> redis \<times> (exn + confirmation)" where
  "c2b_mpesa_confirmation_resource L req r =
     (case try_block L req r of
        (r', Inl e) \<Rightarrow> (r', Inl (coroutine_raise (except_KeyError e)))
      | (r', Inr conf) \<Rightarrow> (r', Inr conf))"

text \<open>The status the framework answers with: that of an HTTPException, 500 for any other
  exception that leaves the handler, 200 for a returned value.\<close>

definition status_code :: "exn + confirmation \<Rightarrow> nat" where
  "status_code res =
     (case res of
        Inr conf \<Rightarrow> 200
      | Inl (HTTPException s d) \<Rightarrow> s
      | Inl e \<Rightarrow> 500)"

subsection \<open>The standard encoder, for evaluating the model\<close>

text \<open>
  \<^verbatim>\<open>json.dumps\<close> with its default arguments, on strings of characters up to code point
  255: \<^verbatim>\<open>", "\<close> between elements, \<^verbatim>\<open>": "\<close> after a key, and every character outside
  the printable ASCII range escaped. The text of a float is left to the argument \<open>fr\<close>.
\<close>

definition digit_char :: "nat \<Rightarrow> char" where
  "digit_char n = ''0123456789abcdef'' ! n"

function decimal :: "int \<Rightarrow> string" where
  "decimal i =
     (if i < 10 then [digit_char (nat i)]
      else decimal (i div 10) @ [digit_char (nat (i mod 10))])"
  by pat_completeness auto
termination
  by (relation "measure nat") auto

declare decimal.simps [simp del]

definition int_repr :: "int \<Rightarrow> string" where
  "int_repr i = (if i < 0 then CHR ''-'' # decimal (- i) else decimal i)"

definition escape_char :: "char \<Rightarrow> string" where
  "escape_char c =
     (if c = CHR 0x22 then [CHR 0x5C, CHR 0x22]
      else if c = CHR 0x5C then [CHR 0x5C, CHR 0x5C]
      else if c = CHR 0x0A then [CHR 0x5C, CHR ''n'']
      else if c = CHR 0x0D then [CHR 0x5C, CHR ''r'']
      else if c = CHR 0x09 then [CHR 0x5C, CHR ''t'']
      else if c = CHR 0x08 then [CHR 0x5C, CHR ''b'']
      else if c = CHR 0x0C then [CHR 0x5C, CHR ''f'']
      else if of_char c < (32::nat) \<or> (126::nat) < of_char c
        then [CHR 0x5C, CHR ''u'', CHR ''0'', CHR ''0'',
              digit_char (of_char c div 16), digit_char (of_char c mod 16)]
      else [c])"

definition encode_str :: "string \<Rightarrow> string" where
  "encode_str s = [CHR 0x22] @ concat (map escape_char s) @ [CHR 0x22]"

fun join :: "string \<Rightarrow> string list \<Rightarrow> string" where
  "join sep [] = []"
| "join sep [x] = x"
| "join sep (x # y # ys) = x @ sep @ join sep (y # ys)"

fun json_dumps :: "(64 word \<Rightarrow> string) \<Rightarrow> json \<Rightarrow> string" where
  "json_dumps fr JNull = ''null''"
| "json_dumps fr (JBool b) = (if b then ''true'' else ''false'')"
| "json_dumps fr (JInt i) = int_repr i"
| "json_dumps fr (JFloat w) = fr w"
| "json_dumps fr (JStr s) = encode_str s"
| "json_dumps fr (JArr xs) = ''['' @ join '', '' (map (json_dumps fr) xs) @ '']''"
| "json_dumps fr (JObj kvs) =
     ''{'' @ join '', ''
        (map (\<lambda>kv. encode_str (fst kv) @ '': '' @ json_dumps fr (snd kv)) kvs) @ ''}''"

subsection \<open>Notions used in the statements\<close>

definition is_dict :: "json \<Rightarrow> bool" where
  "is_dict v = (case v of JObj kvs \<Rightarrow> True | _ \<Rightarrow> False)"

text \<open>The four fields of the callback, in the order the handler reads them.\<close>

definition required_fields :: "string list" where
  "required_fields = [''MerchantRequestID'', ''CheckoutRequestID'', ''ResultCode'', ''ResultDesc'']"

text \<open>The first entry of a sequence, in its order, whose \<^verbatim>\<open>Name\<close> is the string \<open>name\<close>.\<close>

definition first_named :: "string \<Rightarrow> json list \<Rightarrow> json option" where
  "first_named name items = find (\<lambda>item. getitem item ''Name'' = Inr (JStr name)) items"

subsection \<open>Sample callbacks\<close>

text \<open>
  The callbacks below hold strings and integers only, and string request ids, so the
  float text, the f-string text of other values and the coercion of the response model
  are never consulted on them.
\<close>

definition sample_libs :: libs where
  "sample_libs =
     \<lparr>dumps = json_dumps (\<lambda>w. []), format = (\<lambda>v. []), str_validator = (\<lambda>v. None)\<rparr>"

definition empty_redis :: redis where
  "empty_redis = \<lparr>kv = Map.empty, cmds = []\<rparr>"

definition envelope :: "json \<Rightarrow> json" where
  "envelope stk = JObj [(''Body'', JObj [(''stkCallback'', stk)])]"

definition items_without_amount :: "json list" where
  "items_without_amount =
     [JObj [(''Name'', JStr ''MpesaReceiptNumber''), (''Value'', JStr ''NLJ7RT61SV'')],
      JObj [(''Name'', JStr ''TransactionDate''), (''Value'', JInt 20191219102115)],
      JObj [(''Name'', JStr ''PhoneNumber''), (''Value'', JInt 254708374149)]]"

definition metadata_items :: "json list" where
  "metadata_items =
     JObj [(''Name'', JStr ''Amount''), (''Value'', JInt 1)] # items_without_amount"

definition amount_twice :: "json list" where
  "amount_twice = JObj [(''Name'', JStr ''Amount''), (''Value'', JInt 500)] # metadata_items"

definition callback :: "json \<Rightarrow> string \<Rightarrow> json list \<Rightarrow> json" where
  "callback rc rd items =
     JObj [(''MerchantRequestID'', JStr ''29115-34620561-1''),
           (''CheckoutRequestID'', JStr ''ws_CO_191220191020363925''),
           (''ResultCode'', rc),
           (''ResultDesc'', JStr rd),
           (''CallbackMetadata'', JObj [(''Item'', JArr items)])]"


section \<open>Properties\<close>

subsection \<open>The store and the branches of the handler\<close>



lemma eq_zero_values:
  "eq_zero rc \<longleftrightarrow> rc \<in> {JInt 0, JFloat 0, JFloat 0x8000000000000000, JBool False}"
  by (cases rc) auto

lemma handler_failure_branch:
  assumes "read_fields req = Inr (stk, m, c, rc, rd)" and "\<not> eq_zero rc"
  shows "c2b_mpesa_confirmation_resource L req r =
           (redis_set (receipt_key L c) (dumps L (failure_transc m c rc rd)) r,
            Inl (HTTPException 400 rd))"
  using assms
  by (simp add: c2b_mpesa_confirmation_resource_def try_block_def except_KeyError_def
      coroutine_raise_def)

lemma handler_success_branch:
  assumes "read_fields req = Inr (stk, m, c, rc, rd)" and "eq_zero rc"
    and "read_metadata stk = Inr (a, n, t, p)"
  shows "c2b_mpesa_confirmation_resource L req r =
           (redis_set (receipt_key L c) (dumps L (success_transc m c rc rd a n t p)) r,
            PaymentConfirmation L n True rd)"
  using assms
  by (auto simp add: c2b_mpesa_confirmation_resource_def try_block_def except_KeyError_def
      coroutine_raise_def PaymentConfirmation_def optional_str_def
      split: sum.splits json.splits option.splits)

lemma handler_fields_error:
  assumes "read_fields req = Inl e"
  shows "c2b_mpesa_confirmation_resource L req r =
           (r, Inl (coroutine_raise (except_KeyError e)))"
  using assms by (simp add: c2b_mpesa_confirmation_resource_def try_block_def)

lemma handler_metadata_error:
  assumes "read_fields req = Inr (stk, m, c, rc, rd)" and "eq_zero rc"
    and "read_metadata stk = Inl e"
  shows "c2b_mpesa_confirmation_resource L req r =
           (r, Inl (coroutine_raise (except_KeyError e)))"
  using assms by (simp add: c2b_mpesa_confirmation_resource_def try_block_def)

lemma missing_required_field:
  assumes "find (\<lambda>k. map_of s k = None) required_fields = Some k"
    and "stk_callback req = Inr (JObj s)"
  shows "read_fields req = Inl (KeyError k)"
  using assms
  by (auto simp add: required_fields_def read_fields_def split: if_splits option.splits)

lemma next_value_first_named:
  "next_value name items = Inr v \<Longrightarrow>
     \<exists>item. first_named name items = Some item \<and> getitem item ''Value'' = Inr v"
  by (induction items) (auto simp add: first_named_def split: sum.splits if_splits)

subsection \<open>The sample callbacks, evaluated\<close>

lemma fields_callback:
  "read_fields (envelope (callback rc rd items)) =
     Inr (callback rc rd items, JStr ''29115-34620561-1'', JStr ''ws_CO_191220191020363925'',
          rc, JStr rd)"
  by (simp add: read_fields_def stk_callback_def envelope_def callback_def)


lemma metadata_callback:
  "read_metadata (callback rc rd metadata_items) =
     Inr (JInt 1, JStr ''NLJ7RT61SV'', JInt 20191219102115, JInt 254708374149)"
  by (simp add: read_metadata_def callback_def next_item_def metadata_items_def
      items_without_amount_def)

lemma metadata_without_amount:
  "read_metadata (callback rc rd items_without_amount) = Inl StopIteration"
  by (simp add: read_metadata_def callback_def next_item_def items_without_amount_def)

lemma key_sample: "receipt_key sample_libs (JStr s) = ''receipt:'' @ s"
  by (simp add: receipt_key_def)



lemma dumps_string_zero:
  \<open>dumps sample_libs
     (JObj [(''MerchantRequestID'', JStr ''29115-34620561-1''),
            (''CheckoutRequestID'', JStr ''ws_CO_191220191020363925''),
            (''ResultCode'', JStr ''0''),
            (''ResultDesc'', JStr ''The service request is processed successfully.'')]) =
   ''{"MerchantRequestID": "29115-34620561-1", "CheckoutRequestID": "ws_CO_191220191020363925", "ResultCode": "0", "ResultDesc": "The service request is processed successfully."}''\<close>
  by code_simp

subsection \<open>A metadata name that is absent\<close>

text \<open>
  C1. The claim: a callback with \<^verbatim>\<open>ResultCode == 0\<close> whose \<^verbatim>\<open>CallbackMetadata.Item\<close> has
  no entry named \<^verbatim>\<open>Amount\<close> (or one of the other three names) is answered with a
  400-class missing-field response, and nothing is written. The handler does not do so:
  \<^verbatim>\<open>next\<close> on the exhausted generator raises StopIteration, which
  \<^verbatim>\<open>except KeyError\<close> does not catch, so the request ends in a server error (500). On the
  callback below, whose items lack \<^verbatim>\<open>Amount\<close>, the store is left as it was and the
  status is 500, for every \<open>ResultDesc\<close>, store and library behaviour.
\<close>

theorem absent_metadata_name_is_server_error:
  "c2b_mpesa_confirmation_resource L
     (envelope (callback (JInt 0) rd items_without_amount)) r = (r, Inl RuntimeError)
   \<and> status_code (snd (c2b_mpesa_confirmation_resource L
        (envelope (callback (JInt 0) rd items_without_amount)) r)) = 500"
proof -
  have z: "eq_zero (JInt 0)" by simp
  from handler_metadata_error [OF fields_callback z metadata_without_amount]
  show ?thesis
    by (simp add: except_KeyError_def coroutine_raise_def status_code_def)
qed

subsection \<open>The failure path\<close>



subsection \<open>The success path\<close>



text \<open>
  C7. On the success path, with \<^verbatim>\<open>MpesaReceiptNumber\<close> and \<^verbatim>\<open>ResultDesc\<close> strings as the
  callback format has them, the handler returns the confirmation whose \<open>receipt_id\<close> is
  the extracted receipt number, whose \<open>success\<close> is true and whose \<open>errors\<close> is
  \<^verbatim>\<open>ResultDesc\<close>; the status is 200.
\<close>

theorem success_returns_confirmation:
  assumes "read_fields req = Inr (stk, m, c, rc, JStr d)" and "eq_zero rc"
    and "read_metadata stk = Inr (a, JStr n, t, p)"
  shows "snd (c2b_mpesa_confirmation_resource L req r) =
           Inr \<lparr>receipt_id = Some n, success = True, errors = Some d\<rparr>
         \<and> status_code (snd (c2b_mpesa_confirmation_resource L req r)) = 200"
  using handler_success_branch [OF assms]
  by (simp add: PaymentConfirmation_def optional_str_def status_code_def)

theorem success_returns_confirmation_witness:
  \<open>read_fields
     (envelope (callback (JInt 0) ''The service request is processed successfully.''
        metadata_items)) =
     Inr (callback (JInt 0) ''The service request is processed successfully.'' metadata_items,
          JStr ''29115-34620561-1'', JStr ''ws_CO_191220191020363925'', JInt 0,
          JStr ''The service request is processed successfully.'')
   \<and> eq_zero (JInt 0)
   \<and> read_metadata
        (callback (JInt 0) ''The service request is processed successfully.'' metadata_items) =
       Inr (JInt 1, JStr ''NLJ7RT61SV'', JInt 20191219102115, JInt 254708374149)
   \<and> snd (c2b_mpesa_confirmation_resource sample_libs
          (envelope (callback (JInt 0) ''The service request is processed successfully.''
             metadata_items))
          empty_redis) =
       Inr \<lparr>receipt_id = Some ''NLJ7RT61SV'', success = True,
            errors = Some ''The service request is processed successfully.''\<rparr>\<close>
proof -
  have z: "eq_zero (JInt 0)" by simp
  show ?thesis
    using success_returns_confirmation
      [OF fields_callback z metadata_callback, where L = sample_libs and r = empty_redis]
    by (simp add: fields_callback metadata_callback)
qed

text \<open>
  C5. On the success path, with \<^verbatim>\<open>CallbackMetadata.Item\<close> a list, each of the four
  extracted values is the \<^verbatim>\<open>Value\<close> of the first entry of the list, in its order, that
  bears the name: later entries of the same name are not looked at.
\<close>

theorem first_matching_entry_wins:
  assumes "getitem stk ''CallbackMetadata'' = Inr md"
    and "getitem md ''Item'' = Inr (JArr items)"
    and "read_metadata stk = Inr (a, n, t, p)"
  shows "(\<exists>item. first_named ''Amount'' items = Some item \<and> getitem item ''Value'' = Inr a)
       \<and> (\<exists>item. first_named ''MpesaReceiptNumber'' items = Some item
                  \<and> getitem item ''Value'' = Inr n)
       \<and> (\<exists>item. first_named ''TransactionDate'' items = Some item
                  \<and> getitem item ''Value'' = Inr t)
       \<and> (\<exists>item. first_named ''PhoneNumber'' items = Some item
                  \<and> getitem item ''Value'' = Inr p)"
proof -
  from assms have "next_value ''Amount'' items = Inr a"
    and "next_value ''MpesaReceiptNumber'' items = Inr n"
    and "next_value ''TransactionDate'' items = Inr t"
    and "next_value ''PhoneNumber'' items = Inr p"
    by (auto simp add: read_metadata_def next_item_def split: sum.splits)
  then show ?thesis
    by (simp add: next_value_first_named)
qed

theorem first_matching_entry_wins_witness:
  "getitem (callback (JInt 0) ''ok'' amount_twice) ''CallbackMetadata'' =
     Inr (JObj [(''Item'', JArr amount_twice)])
   \<and> getitem (JObj [(''Item'', JArr amount_twice)]) ''Item'' = Inr (JArr amount_twice)
   \<and> read_metadata (callback (JInt 0) ''ok'' amount_twice) =
       Inr (JInt 500, JStr ''NLJ7RT61SV'', JInt 20191219102115, JInt 254708374149)
   \<and> first_named ''Amount'' amount_twice =
       Some (JObj [(''Name'', JStr ''Amount''), (''Value'', JInt 500)])"
proof -
  have a: "getitem (callback (JInt 0) ''ok'' amount_twice) ''CallbackMetadata'' =
             Inr (JObj [(''Item'', JArr amount_twice)])"
    by (simp add: callback_def)
  have b: "getitem (JObj [(''Item'', JArr amount_twice)]) ''Item'' = Inr (JArr amount_twice)"
    by simp
  have c: "read_metadata (callback (JInt 0) ''ok'' amount_twice) =
             Inr (JInt 500, JStr ''NLJ7RT61SV'', JInt 20191219102115, JInt 254708374149)"
    by (simp add: read_metadata_def callback_def next_item_def amount_twice_def
        metadata_items_def items_without_amount_def)
  show ?thesis
    using first_matching_entry_wins [OF a b c] a b c
    by (simp add: first_named_def amount_twice_def metadata_items_def)
qed

subsection \<open>A field of the envelope that is absent\<close>

text \<open>
  C4, as claimed: every payload from which a required field is missing is answered with
  the 400 that names it. It is not so when the value that should hold the field is not
  an object: with \<^verbatim>\<open>{"Body": null}\<close> the field \<^verbatim>\<open>Body.stkCallback\<close> is missing, and
  with \<^verbatim>\<open>{"Body": {"stkCallback": []}}\<close> the four fields of the callback are, yet the
  subscript raises TypeError, which \<^verbatim>\<open>except KeyError\<close> lets pass: the status is 500.
  The store is left as it was in both cases.
\<close>

theorem missing_field_under_non_object_is_server_error:
  "c2b_mpesa_confirmation_resource sample_libs (JObj [(''Body'', JNull)]) empty_redis =
     (empty_redis, Inl TypeError)
   \<and> status_code (snd (c2b_mpesa_confirmation_resource sample_libs
        (JObj [(''Body'', JNull)]) empty_redis)) = 500
   \<and> c2b_mpesa_confirmation_resource sample_libs (envelope (JArr [])) empty_redis =
       (empty_redis, Inl TypeError)
   \<and> status_code (snd (c2b_mpesa_confirmation_resource sample_libs
        (envelope (JArr [])) empty_redis)) = 500"
proof -
  have a: "read_fields (JObj [(''Body'', JNull)]) = Inl TypeError"
    by (simp add: read_fields_def stk_callback_def)
  have b: "read_fields (envelope (JArr [])) = Inl TypeError"
    by (simp add: read_fields_def stk_callback_def envelope_def)
  show ?thesis
    by (simp add: handler_fields_error [OF a] handler_fields_error [OF b]
        except_KeyError_def coroutine_raise_def status_code_def)
qed

text \<open>
  C4, amended. When the request body is an object and a required key is absent from the
  object that should hold it (\<^verbatim>\<open>Body\<close> from the body, \<^verbatim>\<open>stkCallback\<close> from an object
  \<^verbatim>\<open>Body\<close>, one of the four fields from an object callback), the handler raises
  \<open>HTTPException\<close> with status 400 and the detail \<^verbatim>\<open>Missing required field: \<close> followed
  by the key as Python prints a KeyError (between single quotes), and the store is left
  as it was. Of several absent fields of the callback the one named is the first in the
  order the handler reads them.
\<close>

theorem missing_field_is_400_and_nothing_written:
  "(map_of p ''Body'' = None \<longrightarrow>
      c2b_mpesa_confirmation_resource L (JObj p) r =
        (r, Inl (HTTPException 400
                  (JStr (''Missing required field: '' @ str_KeyError ''Body'')))))
   \<and> (map_of p ''Body'' = Some (JObj b) \<and> map_of b ''stkCallback'' = None \<longrightarrow>
      c2b_mpesa_confirmation_resource L (JObj p) r =
        (r, Inl (HTTPException 400
                  (JStr (''Missing required field: '' @ str_KeyError ''stkCallback'')))))
   \<and> (map_of p ''Body'' = Some (JObj b) \<and> map_of b ''stkCallback'' = Some (JObj s)
        \<and> find (\<lambda>k. map_of s k = None) required_fields = Some k \<longrightarrow>
      c2b_mpesa_confirmation_resource L (JObj p) r =
        (r, Inl (HTTPException 400
                  (JStr (''Missing required field: '' @ str_KeyError k)))))
   \<and> status_code (Inl (HTTPException 400 d)) = 400"
proof -
  have 1: "map_of p ''Body'' = None \<Longrightarrow> read_fields (JObj p) = Inl (KeyError ''Body'')"
    by (simp add: read_fields_def stk_callback_def)
  have 2: "map_of p ''Body'' = Some (JObj b) \<Longrightarrow> map_of b ''stkCallback'' = None \<Longrightarrow>
             read_fields (JObj p) = Inl (KeyError ''stkCallback'')"
    by (simp add: read_fields_def stk_callback_def)
  have 3: "map_of p ''Body'' = Some (JObj b) \<Longrightarrow> map_of b ''stkCallback'' = Some (JObj s) \<Longrightarrow>
             find (\<lambda>k. map_of s k = None) required_fields = Some k \<Longrightarrow>
             read_fields (JObj p) = Inl (KeyError k)"
    by (rule missing_required_field) (simp_all add: stk_callback_def)
  show ?thesis
    using 1 2 3
    by (auto simp add: handler_fields_error except_KeyError_def coroutine_raise_def
        status_code_def)
qed

theorem missing_field_is_400_and_nothing_written_witness:
  "map_of ([]::(string \<times> json) list) ''Body'' = None
   \<and> c2b_mpesa_confirmation_resource sample_libs (JObj []) empty_redis =
       (empty_redis, Inl (HTTPException 400
          (JStr (''Missing required field: '' @ [CHR 0x27] @ ''Body'' @ [CHR 0x27]))))
   \<and> map_of [(''Body'', JObj [])] ''Body'' = Some (JObj [])
   \<and> map_of ([]::(string \<times> json) list) ''stkCallback'' = None
   \<and> c2b_mpesa_confirmation_resource sample_libs (JObj [(''Body'', JObj [])]) empty_redis =
       (empty_redis, Inl (HTTPException 400
          (JStr (''Missing required field: '' @ [CHR 0x27] @ ''stkCallback'' @ [CHR 0x27]))))
   \<and> find (\<lambda>k. map_of [(''MerchantRequestID'', JStr ''29115-34620561-1''),
                         (''CheckoutRequestID'', JStr ''ws_CO_191220191020363925''),
                         (''ResultDesc'', JStr ''ok'')] k = None) required_fields =
       Some ''ResultCode''
   \<and> c2b_mpesa_confirmation_resource sample_libs
        (envelope (JObj [(''MerchantRequestID'', JStr ''29115-34620561-1''),
                         (''CheckoutRequestID'', JStr ''ws_CO_191220191020363925''),
                         (''ResultDesc'', JStr ''ok'')])) empty_redis =
       (empty_redis, Inl (HTTPException 400
          (JStr (''Missing required field: '' @ [CHR 0x27] @ ''ResultCode'' @ [CHR 0x27]))))"
  using missing_field_is_400_and_nothing_written
          [where p = "[]" and L = sample_libs and r = empty_redis]
        missing_field_is_400_and_nothing_written
          [where p = "[(''Body'', JObj [])]" and b = "[]" and L = sample_libs
             and r = empty_redis]
        missing_field_is_400_and_nothing_written
          [where p = "[(''Body'', JObj [(''stkCallback'',
                         JObj [(''MerchantRequestID'', JStr ''29115-34620561-1''),
                               (''CheckoutRequestID'', JStr ''ws_CO_191220191020363925''),
                               (''ResultDesc'', JStr ''ok'')])])]"
             and b = "[(''stkCallback'',
                         JObj [(''MerchantRequestID'', JStr ''29115-34620561-1''),
                               (''CheckoutRequestID'', JStr ''ws_CO_191220191020363925''),
                               (''ResultDesc'', JStr ''ok'')])]"
             and s = "[(''MerchantRequestID'', JStr ''29115-34620561-1''),
                       (''CheckoutRequestID'', JStr ''ws_CO_191220191020363925''),
                       (''ResultDesc'', JStr ''ok'')]"
             and k = "''ResultCode''" and L = sample_libs and r = empty_redis]
  by (simp add: required_fields_def str_KeyError_def envelope_def)

subsection \<open>A request body that is not an object\<close>

text \<open>
  C9. When the request body is not a JSON object (None for an absent body, a list, a
  string, a number, a boolean), the first subscript raises TypeError, which
  \<^verbatim>\<open>except KeyError\<close> lets pass: the status is 500 and the store is left as it was.
\<close>

theorem non_object_body_is_server_error:
  assumes "\<not> is_dict req"
  shows "c2b_mpesa_confirmation_resource L req r = (r, Inl TypeError)
         \<and> status_code (snd (c2b_mpesa_confirmation_resource L req r)) = 500"
proof -
  from assms have "getitem req ''Body'' = Inl TypeError"
    by (cases req) (simp_all add: is_dict_def)
  then have "read_fields req = Inl TypeError"
    by (simp add: read_fields_def stk_callback_def)
  from handler_fields_error [OF this] show ?thesis
    by (simp add: except_KeyError_def coroutine_raise_def status_code_def)
qed

theorem non_object_body_is_server_error_witness:
  "\<not> is_dict JNull
   \<and> \<not> is_dict (JArr [JStr ''Body''])
   \<and> c2b_mpesa_confirmation_resource sample_libs JNull empty_redis = (empty_redis, Inl TypeError)
   \<and> c2b_mpesa_confirmation_resource sample_libs (JArr [JStr ''Body'']) empty_redis =
       (empty_redis, Inl TypeError)"
proof -
  have a: "\<not> is_dict JNull" and b: "\<not> is_dict (JArr [JStr ''Body''])"
    by (simp_all add: is_dict_def)
  show ?thesis
    using non_object_body_is_server_error [OF a, where L = sample_libs and r = empty_redis]
      non_object_body_is_server_error [OF b, where L = sample_libs and r = empty_redis] a b
    by simp
qed

subsection \<open>Writes to the store\<close>





subsection \<open>The test on the result code\<close>

text \<open>
  C10, as claimed: every \<^verbatim>\<open>ResultCode\<close> other than the integer 0 leads to the failure
  path. It does not: \<^verbatim>\<open>ResultCode == 0\<close> is Python's equality, which holds of
  \<^verbatim>\<open>False\<close> (JSON \<^verbatim>\<open>false\<close>) and of the float zeros as well. With \<^verbatim>\<open>false\<close> for the
  result code the sample callback is answered on the success path, with the confirmation
  and status 200.
\<close>

theorem false_result_code_takes_success_path:
  \<open>JBool False \<noteq> JInt 0
   \<and> snd (c2b_mpesa_confirmation_resource sample_libs
          (envelope (callback (JBool False) ''The service request is processed successfully.''
             metadata_items)) empty_redis) =
       Inr \<lparr>receipt_id = Some ''NLJ7RT61SV'', success = True,
            errors = Some ''The service request is processed successfully.''\<rparr>
   \<and> status_code (snd (c2b_mpesa_confirmation_resource sample_libs
          (envelope (callback (JBool False) ''The service request is processed successfully.''
             metadata_items)) empty_redis)) = 200\<close>
proof -
  have z: "eq_zero (JBool False)" by simp
  show ?thesis
    by (simp add: handler_success_branch [OF fields_callback z metadata_callback]
        PaymentConfirmation_def optional_str_def status_code_def)
qed

text \<open>
  C10, amended: the branch is decided by \<^verbatim>\<open>ResultCode == 0\<close> as Python evaluates it.
  Every \<^verbatim>\<open>ResultCode\<close> other than the integer 0, the floats 0.0 and -0.0 and the boolean
  false (so the string \<^verbatim>\<open>"0"\<close> too) leads to the failure path: the four-field record
  is stored and the response is the 400 with \<^verbatim>\<open>ResultDesc\<close> as its detail.
\<close>

theorem result_code_not_equal_zero_takes_failure_path:
  assumes "read_fields req = Inr (stk, m, c, rc, rd)"
    and "rc \<notin> {JInt 0, JFloat 0, JFloat 0x8000000000000000, JBool False}"
  shows "c2b_mpesa_confirmation_resource L req r =
           (redis_set (receipt_key L c)
              (dumps L (JObj [(''MerchantRequestID'', m), (''CheckoutRequestID'', c),
                              (''ResultCode'', rc), (''ResultDesc'', rd)])) r,
            Inl (HTTPException 400 rd))
         \<and> kv (fst (c2b_mpesa_confirmation_resource L req r)) (receipt_key L c) =
             Some (dumps L (JObj [(''MerchantRequestID'', m), (''CheckoutRequestID'', c),
                                  (''ResultCode'', rc), (''ResultDesc'', rd)]))
         \<and> status_code (snd (c2b_mpesa_confirmation_resource L req r)) = 400"
proof -
  from assms(2) have "\<not> eq_zero rc" by (simp only: eq_zero_values not_False_eq_True)
  from handler_failure_branch [OF assms(1) this] show ?thesis
    by (simp add: failure_transc_def status_code_def redis_set_def)
qed

theorem result_code_not_equal_zero_takes_failure_path_witness:
  \<open>read_fields
     (envelope (callback (JStr ''0'') ''The service request is processed successfully.''
        metadata_items)) =
     Inr (callback (JStr ''0'') ''The service request is processed successfully.''
            metadata_items,
          JStr ''29115-34620561-1'', JStr ''ws_CO_191220191020363925'', JStr ''0'',
          JStr ''The service request is processed successfully.'')
   \<and> JStr ''0'' \<notin> {JInt 0, JFloat 0, JFloat 0x8000000000000000, JBool False}
   \<and> c2b_mpesa_confirmation_resource sample_libs
        (envelope (callback (JStr ''0'') ''The service request is processed successfully.''
           metadata_items)) empty_redis =
       (redis_set ''receipt:ws_CO_191220191020363925''
          ''{"MerchantRequestID": "29115-34620561-1", "CheckoutRequestID": "ws_CO_191220191020363925", "ResultCode": "0", "ResultDesc": "The service request is processed successfully."}''
          empty_redis,
        Inl (HTTPException 400 (JStr ''The service request is processed successfully.'')))
   \<and> kv (fst (c2b_mpesa_confirmation_resource sample_libs
          (envelope (callback (JStr ''0'') ''The service request is processed successfully.''
             metadata_items)) empty_redis)) ''receipt:ws_CO_191220191020363925'' =
       Some ''{"MerchantRequestID": "29115-34620561-1", "CheckoutRequestID": "ws_CO_191220191020363925", "ResultCode": "0", "ResultDesc": "The service request is processed successfully."}''\<close>
proof -
  have nz: "JStr ''0'' \<notin> {JInt 0, JFloat 0, JFloat 0x8000000000000000, JBool False}"
    by simp
  show ?thesis
    using result_code_not_equal_zero_takes_failure_path
      [OF fields_callback nz, where L = sample_libs and r = empty_redis]
    by (simp add: fields_callback key_sample dumps_string_zero redis_set_def)
qed

end
